theory Spec2Isabelle
  imports Main
begin

section \<open>The command tree consumed by \<open>cmd.c\<close>\<close>

text \<open>
  Modelled from the spec: the word type of the parser (its header is not part of the
  sources at hand). The spec says the evaluator only reads the resolved text of a word, so
  a word is represented by that text; \<open>s->in->string\<close> and \<open>get_word\<close> both read it.
  A \<open>NULL\<close> word pointer is \<open>None\<close>.
\<close>

type_synonym word_t = string

definition get_word :: "word_t option \<Rightarrow> string option" where
  "get_word s = s"

text \<open>
  Modelled from the spec: a simple command has a verb, argument words, three optional
  redirection targets and a flag set. The linked list \<open>params\<close> is a list (\<open>NULL\<close> is the
  empty list); the two bits \<open>IO_OUT_APPEND\<close> and \<open>IO_ERR_APPEND\<close> of \<open>io_flags\<close> are two
  booleans. The field \<open>in\<close> of the source is called \<open>inp\<close> here.
\<close>

record simple_command_t =
  verb :: "word_t option"
  params :: "word_t list"
  inp :: "word_t option"
  out :: "word_t option"
  err :: "word_t option"
  IO_OUT_APPEND :: bool
  IO_ERR_APPEND :: bool

text \<open>
  Modelled from the spec: the operator tag. The spec names the leaf tag and five operators;
  \<open>OP_OTHER k\<close> stands for any other value \<open>k\<close> the C enumeration field may hold.
\<close>

datatype operator_t =
    OP_NONE
  | OP_SEQUENTIAL
  | OP_PARALLEL
  | OP_CONDITIONAL_ZERO
  | OP_CONDITIONAL_NZERO
  | OP_PIPE
  | OP_OTHER int

text \<open>A tree node as \<open>parse_command\<close> reads it: the tag, the leaf and the two child pointers.\<close>

datatype command_t =
  Command (op: operator_t) (scmd: "simple_command_t option")
          (cmd1: "command_t option") (cmd2: "command_t option")

section \<open>Processes, descriptors and the operating system\<close>

text \<open>How a process ends, as its parent can observe it through \<open>waitpid\<close>.\<close>

datatype proc_end = Exited int | Killed int | Hangs

text \<open>
  The raw wait status (Linux encoding) and the macros of \<open>sys/wait.h\<close> the source uses.
  \<open>exit(n)\<close> keeps the low eight bits of \<open>n\<close>; a signal number sits in the low seven bits.
\<close>

fun wstatus :: "proc_end \<Rightarrow> int" where
  "wstatus (Exited n) = (n mod 256) * 256"
| "wstatus (Killed sig) = sig mod 128"
| "wstatus Hangs = 0"

definition WIFEXITED :: "int \<Rightarrow> bool" where
  "WIFEXITED st = (st mod 128 = 0)"

definition WSTOPSIG :: "int \<Rightarrow> int" where
  "WSTOPSIG st = (st div 256) mod 256"

definition WIFSTOPPED :: "int \<Rightarrow> bool" where
  "WIFSTOPPED st = (st mod 256 = 127)"

datatype open_mode = O_RDONLY | O_WRONLY_CREAT_APPEND | O_WRONLY_CREAT_TRUNC

text \<open>An open file description: what a descriptor refers to. Two descriptors that refer to the
  same description (same identifier) share it, as after \<open>dup2\<close>.\<close>

datatype ofile = OFile nat string open_mode | OPipeRead nat | OPipeWrite nat | OTerminal

text \<open>The system calls a process makes, in order, with the values that matter later.\<close>

datatype syscall =
    SysOpen "string option" open_mode int
  | SysDup2 int int int
  | SysClose int
  | SysDupfd int int int
  | SysPipe "(int \<times> int) option"
  | SysFork int
  | SysWait int "int option"
  | SysChdir string int
  | SysGetcwd "string option"
  | SysWrite int string
  | SysPutenv string int

text \<open>
  The state one process sees. \<open>cwd\<close>, \<open>fds\<close>, \<open>children\<close> (terminated or running children
  not yet waited for), \<open>environ\<close>, \<open>trace\<close> (the calls this process made) and \<open>next_pid\<close>
  belong to the process; \<open>clock\<close> and \<open>next_ofile\<close> belong to the whole system and are
  carried through child processes.
\<close>

record world =
  cwd :: string
  fds :: "int \<Rightarrow> ofile option"
  children :: "(int \<times> proc_end) list"
  environ :: "string list"
  trace :: "syscall list"
  clock :: nat
  next_pid :: nat
  next_ofile :: nat

text \<open>
  What the code takes from outside: the constants \<open>SHELL_EXIT\<close> (of the absent \<open>cmd.h\<close>),
  \<open>PATH_MAX\<close> and the size of the descriptor table, and the answers of the operating system
  that the code cannot influence, each a function of the time of the call.
\<close>

record kernel =
  SHELL_EXIT :: int
  PATH_MAX :: nat
  OPEN_MAX :: nat
  fork_ok :: "nat \<Rightarrow> bool"
  wait_ok :: "nat \<Rightarrow> bool"
  can_open :: "nat \<Rightarrow> string \<Rightarrow> open_mode \<Rightarrow> bool"
  resolve_dir :: "nat \<Rightarrow> string \<Rightarrow> string option"
  program :: "nat \<Rightarrow> string \<Rightarrow> string list \<Rightarrow> proc_end option"
  putenv_ok :: "nat \<Rightarrow> bool"

text \<open>What a piece of code does to the process that runs it: it returns a value, calls
  \<open>exit\<close>, dereferences \<open>NULL\<close>, or blocks forever in \<open>waitpid\<close>.\<close>

datatype 'a outcome = Ret 'a | Exit int | Fault | Blocked

definition log :: "syscall \<Rightarrow> world \<Rightarrow> world" where
  "log e w = w\<lparr>trace := trace w @ [e], clock := Suc (clock w)\<rparr>"

definition lowest_free :: "kernel \<Rightarrow> world \<Rightarrow> nat \<Rightarrow> int option" where
  "lowest_free K w lo = find (\<lambda>fd. fds w fd = None) (map int [lo..<OPEN_MAX K])"

definition sys_open :: "kernel \<Rightarrow> string option \<Rightarrow> open_mode \<Rightarrow> world \<Rightarrow> int \<times> world" where
  "sys_open K path mode w =
     (case path of
        None \<Rightarrow> (-1, log (SysOpen path mode (-1)) w)
      | Some p \<Rightarrow>
          if \<not> can_open K (clock w) p mode then (-1, log (SysOpen path mode (-1)) w)
          else (case lowest_free K w 0 of
                  None \<Rightarrow> (-1, log (SysOpen path mode (-1)) w)
                | Some fd \<Rightarrow>
                    (fd, log (SysOpen path mode fd)
                           (w\<lparr>fds := (fds w)(fd \<mapsto> OFile (next_ofile w) p mode),
                              next_ofile := Suc (next_ofile w)\<rparr>))))"

definition sys_dup2 :: "int \<Rightarrow> int \<Rightarrow> world \<Rightarrow> int \<times> world" where
  "sys_dup2 oldfd newfd w =
     (case (if oldfd < 0 \<or> newfd < 0 then None else fds w oldfd) of
        None \<Rightarrow> (-1, log (SysDup2 oldfd newfd (-1)) w)
      | Some f \<Rightarrow> (newfd, log (SysDup2 oldfd newfd newfd) (w\<lparr>fds := (fds w)(newfd \<mapsto> f)\<rparr>)))"

definition sys_close :: "int \<Rightarrow> world \<Rightarrow> world" where
  "sys_close fd w = log (SysClose fd) (w\<lparr>fds := (fds w)(fd := None)\<rparr>)"

definition sys_dupfd :: "kernel \<Rightarrow> int \<Rightarrow> nat \<Rightarrow> world \<Rightarrow> int \<times> world" where
  "sys_dupfd K fd lo w =
     (case (if fd < 0 then None else fds w fd) of
        None \<Rightarrow> (-1, log (SysDupfd fd (int lo) (-1)) w)
      | Some f \<Rightarrow>
          (case lowest_free K w lo of
             None \<Rightarrow> (-1, log (SysDupfd fd (int lo) (-1)) w)
           | Some n \<Rightarrow> (n, log (SysDupfd fd (int lo) n) (w\<lparr>fds := (fds w)(n \<mapsto> f)\<rparr>))))"

definition sys_pipe :: "kernel \<Rightarrow> world \<Rightarrow> (int \<times> int) option \<times> world" where
  "sys_pipe K w =
     (case lowest_free K w 0 of
        None \<Rightarrow> (None, log (SysPipe None) w)
      | Some r \<Rightarrow>
          (case lowest_free K (w\<lparr>fds := (fds w)(r \<mapsto> OPipeRead (next_ofile w))\<rparr>) 0 of
             None \<Rightarrow> (None, log (SysPipe None) w)
           | Some wr \<Rightarrow>
               (Some (r, wr),
                log (SysPipe (Some (r, wr)))
                  (w\<lparr>fds := (fds w)(r \<mapsto> OPipeRead (next_ofile w),
                                     wr \<mapsto> OPipeWrite (next_ofile w)),
                     next_ofile := Suc (next_ofile w)\<rparr>))))"

definition sys_chdir :: "kernel \<Rightarrow> string \<Rightarrow> world \<Rightarrow> int \<times> world" where
  "sys_chdir K path w =
     (case resolve_dir K (clock w) path of
        None \<Rightarrow> (-1, log (SysChdir path (-1)) w)
      | Some d \<Rightarrow> (0, log (SysChdir path 0) (w\<lparr>cwd := d\<rparr>)))"

definition sys_getcwd :: "nat \<Rightarrow> world \<Rightarrow> string option \<times> world" where
  "sys_getcwd sz w =
     (if length (cwd w) + 1 \<le> sz then (Some (cwd w), log (SysGetcwd (Some (cwd w))) w)
      else (None, log (SysGetcwd None) w))"

definition sys_write :: "int \<Rightarrow> string \<Rightarrow> world \<Rightarrow> world" where
  "sys_write fd text w = log (SysWrite fd text) w"

text \<open>
  \<open>putenv\<close>: an entry of the environment is a string \<open>NAME=VALUE\<close>. An assignment to a name
  that is already there replaces its entry in place; a new name is added at the end.
\<close>

definition env_name :: "string \<Rightarrow> string" where
  "env_name entry = takeWhile (\<lambda>c. c \<noteq> CHR ''='') entry"

definition env_assign :: "string \<Rightarrow> string list \<Rightarrow> string list" where
  "env_assign str env =
     (if list_ex (\<lambda>entry. env_name entry = env_name str) env
      then map (\<lambda>entry. if env_name entry = env_name str then str else entry) env
      else env @ [str])"

definition sys_putenv :: "kernel \<Rightarrow> string \<Rightarrow> world \<Rightarrow> int \<times> world" where
  "sys_putenv K str w =
     (if putenv_ok K (clock w)
      then (0, log (SysPutenv str 0) (w\<lparr>environ := env_assign str (environ w)\<rparr>))
      else (-1, log (SysPutenv str (-1)) w))"

text \<open>
  \<open>fork\<close>. \<open>forked w\<close> is the parent right after a successful call; the child starts
  from a copy of it with no children of its own, and \<open>body\<close> is what the child runs until
  its process ends. The parent keeps its own process state, gains one child to wait for, and
  sees the clock and the open-file counter where the child left them. The child is run to
  its end before the parent goes on. Process identifiers are only ever compared within one
  parent's list of children, so each process numbers its own children.
\<close>

definition child_world :: "world \<Rightarrow> world" where
  "child_world w = w\<lparr>children := [], trace := []\<rparr>"

definition forked :: "world \<Rightarrow> world" where
  "forked w = log (SysFork (1 + int (next_pid w))) (w\<lparr>next_pid := Suc (next_pid w)\<rparr>)"

definition fork_child :: "kernel \<Rightarrow> (world \<Rightarrow> proc_end \<times> world) \<Rightarrow> world \<Rightarrow> int \<times> world" where
  "fork_child K body w =
     (if \<not> fork_ok K (clock w) then (-1, log (SysFork (-1)) w)
      else
        (case body (child_world (forked w)) of
           (e, cw) \<Rightarrow>
             (1 + int (next_pid w),
              (forked w)\<lparr>children := children w @ [(1 + int (next_pid w), e)],
                         clock := clock cw, next_ofile := next_ofile cw\<rparr>)))"

datatype wait_result = WaitFailed | WaitBlocked | WaitStatus int

text \<open>
  \<open>waitpid(pid, &state, 0)\<close>: \<open>pid = -1\<close> asks for any child (the oldest terminated one is
  taken). It fails when there is no such child or when the system says so, and never returns
  when the child never ends.
\<close>

definition sys_waitpid :: "kernel \<Rightarrow> int \<Rightarrow> world \<Rightarrow> wait_result \<times> world" where
  "sys_waitpid K pid w =
     (let cands = (if pid = -1 then children w else filter (\<lambda>(p, e). p = pid) (children w))
      in if cands = [] \<or> \<not> wait_ok K (clock w) then (WaitFailed, log (SysWait pid None) w)
         else (case find (\<lambda>(p, e). e \<noteq> Hangs) cands of
                 None \<Rightarrow> (WaitBlocked, w)
               | Some (p, e) \<Rightarrow>
                   (WaitStatus (wstatus e),
                    log (SysWait pid (Some (wstatus e)))
                      (w\<lparr>children := filter (\<lambda>(q, e'). q \<noteq> p) (children w)\<rparr>))))"

section \<open>The evaluator of \<open>cmd.c\<close>\<close>

text \<open>\<open>shell_cd\<close>, lines 23 to 59. \<open>dir\<close> is \<open>s->params\<close>; only its first word is read.
  The result is the boolean of the source together with the state afterwards.\<close>

definition shell_cd :: "kernel \<Rightarrow> word_t list \<Rightarrow> world \<Rightarrow> bool \<times> world" where
  "shell_cd K dir w =
     (case dir of
        [] \<Rightarrow> (True, w)
      | next_dir # _ \<Rightarrow>
          if next_dir \<noteq> [] \<and> hd next_dir = CHR ''/'' then
            (case sys_chdir K next_dir w of (r, w1) \<Rightarrow> if r = -1 then (False, w1) else (True, w1))
          else
            (case sys_getcwd (PATH_MAX K) w of
               (None, w1) \<Rightarrow> (False, w1)
             | (Some path, w1) \<Rightarrow>
                 (let current_path_len = length path
                  in if current_path_len + length next_dir + 1 \<ge> PATH_MAX K then (False, w1)
                     else (case sys_chdir K (path @ ''/'' @ next_dir) w1 of
                             (r, w2) \<Rightarrow> if r = -1 then (False, w2) else (True, w2)))))"

definition shell_exit :: "kernel \<Rightarrow> int" where
  "shell_exit K = SHELL_EXIT K"

text \<open>\<open>file_operations\<close>, lines 69 to 116, in its two blocks: the input target (lines 71 to
  79) and the output and error targets (lines 81 to 115).\<close>

definition redirect_input :: "kernel \<Rightarrow> simple_command_t \<Rightarrow> world \<Rightarrow> unit outcome \<times> world" where
  "redirect_input K s w =
     (case inp s of
        None \<Rightarrow> (Ret (), w)
      | Some path \<Rightarrow>
          (case sys_open K (Some path) O_RDONLY w of
             (in_fd, w1) \<Rightarrow>
               if in_fd = -1 then (Exit 1, w1)
               else (case sys_dup2 in_fd 0 w1 of
                       (r, w2) \<Rightarrow>
                         if r = -1 then (Exit 1, w2) else (Ret (), sys_close in_fd w2))))"

definition open_for_counter :: "kernel \<Rightarrow> nat \<Rightarrow> string option \<Rightarrow> world \<Rightarrow> int \<times> world" where
  "open_for_counter K counter path w =
     (if counter = 1 then sys_open K path O_WRONLY_CREAT_APPEND w
      else if counter = 2 then sys_open K path O_WRONLY_CREAT_TRUNC w
      else (-1, w))"

definition redirect_out_err :: "kernel \<Rightarrow> simple_command_t \<Rightarrow> world \<Rightarrow> world" where
  "redirect_out_err K s w =
     (if out s \<noteq> None \<or> err s \<noteq> None then
        (let out_p = get_word (out s);
             err_p = get_word (err s);
             counter = (if IO_OUT_APPEND s \<or> IO_ERR_APPEND s then 1 else 2 :: nat)
         in case open_for_counter K counter out_p w of
              (out_fd, w1) \<Rightarrow>
                (case sys_dup2 out_fd 1 w1 of
                   (_, w2) \<Rightarrow>
                     (case (case err_p of
                              None \<Rightarrow> (-1, w2)
                            | Some e \<Rightarrow>
                                (case (if out_p \<noteq> None \<and> out_p = Some e then (out_fd, w2)
                                       else open_for_counter K counter err_p w2) of
                                   (err_fd, w3) \<Rightarrow> (err_fd, snd (sys_dup2 err_fd 2 w3)))) of
                        (err_fd, w4) \<Rightarrow>
                          (let w5 = (if out_fd \<noteq> -1 \<and> out_fd \<noteq> err_fd
                                     then sys_close out_fd w4 else w4)
                           in if err_fd \<noteq> -1 then sys_close err_fd w5 else w5))))
      else w)"

definition file_operations :: "kernel \<Rightarrow> simple_command_t \<Rightarrow> world \<Rightarrow> unit outcome \<times> world" where
  "file_operations K s w =
     (case redirect_input K s w of
        (Ret _, w1) \<Rightarrow> (Ret (), redirect_out_err K s w1)
      | (stop, w1) \<Rightarrow> (stop, w1))"

text \<open>\<open>parse_simple_cd_case\<close>, lines 118 to 132.\<close>

definition parse_simple_cd_case ::
  "kernel \<Rightarrow> string \<Rightarrow> simple_command_t \<Rightarrow> world \<Rightarrow> int outcome \<times> world" where
  "parse_simple_cd_case K command s w =
     (case sys_dupfd K 1 1 w of
        (out_s, w1) \<Rightarrow>
          (case sys_dupfd K 2 2 w1 of
             (err_s, w2) \<Rightarrow>
               (case file_operations K s w2 of
                  (Ret _, w3) \<Rightarrow>
                    (case sys_dup2 out_s 1 w3 of
                       (r1, w4) \<Rightarrow>
                         if r1 = -1 then (Exit 1, w4)
                         else (case sys_dup2 err_s 2 w4 of
                                 (r2, w5) \<Rightarrow>
                                   if r2 = -1 then (Exit 1, w5)
                                   else (case shell_cd K (params s) w5 of
                                           (ok, w6) \<Rightarrow> (Ret (if ok then 0 else -1), w6))))
                | (Exit n, w3) \<Rightarrow> (Exit n, w3)
                | (Fault, w3) \<Rightarrow> (Fault, w3)
                | (Blocked, w3) \<Rightarrow> (Blocked, w3))))"

definition parse_simple_quit_case :: "kernel \<Rightarrow> string \<Rightarrow> world \<Rightarrow> int outcome \<times> world" where
  "parse_simple_quit_case K command w = (Ret (shell_exit K), w)"

text \<open>\<open>parse_simple_pwd_case\<close>, lines 140 to 159. \<open>dprintf\<close> prints \<open>(null)\<close> for a
  \<open>NULL\<close> string.\<close>

definition parse_simple_pwd_case ::
  "kernel \<Rightarrow> string \<Rightarrow> simple_command_t \<Rightarrow> world \<Rightarrow> int outcome \<times> world" where
  "parse_simple_pwd_case K command s w =
     (case sys_dupfd K 1 1 w of
        (out_s, w1) \<Rightarrow>
          (case sys_dupfd K 2 2 w1 of
             (err_s, w2) \<Rightarrow>
               (case file_operations K s w2 of
                  (Ret _, w3) \<Rightarrow>
                    (case sys_getcwd (PATH_MAX K) w3 of
                       (path, w4) \<Rightarrow>
                         (let w5 = sys_write 1
                                     ((case path of None \<Rightarrow> ''(null)'' | Some p \<Rightarrow> p)
                                        @ [CHR 0x0A]) w4
                          in case sys_dup2 out_s 1 w5 of
                               (r1, w6) \<Rightarrow>
                                 if r1 = -1 then (Exit 1, w6)
                                 else (case sys_dup2 err_s 2 w6 of
                                         (r2, w7) \<Rightarrow>
                                           if r2 = -1 then (Exit 1, w7) else (Ret 0, w7))))
                | (Exit n, w3) \<Rightarrow> (Exit n, w3)
                | (Fault, w3) \<Rightarrow> (Fault, w3)
                | (Blocked, w3) \<Rightarrow> (Blocked, w3))))"

text \<open>Modelled from the spec: \<open>get_argv\<close> (of the absent \<open>utils.c\<close>) builds the argument
  vector from the verb and the argument words.\<close>

definition get_argv :: "simple_command_t \<Rightarrow> string list option" where
  "get_argv s = (case verb s of None \<Rightarrow> None | Some v \<Rightarrow> Some (v # params s))"

text \<open>The child of \<open>parse_simple_external\<close> (\<open>case 0\<close>, lines 171 to 184): how its process
  ends. \<open>EXIT_FAILURE\<close> is 1. A started program ends as the system says.\<close>

definition external_child ::
  "kernel \<Rightarrow> string \<Rightarrow> simple_command_t \<Rightarrow> world \<Rightarrow> proc_end \<times> world" where
  "external_child K command s w =
     (case file_operations K s w of
        (Ret _, w1) \<Rightarrow>
          (case get_argv s of
             None \<Rightarrow> (Exited 1, w1)
           | Some args \<Rightarrow>
               (case program K (clock w1) command args of
                  None \<Rightarrow> (Exited 1, sys_write 2 (''Execution failed for '' @ [CHR 0x27]
                                          @ command @ [CHR 0x27, CHR 0x0A])
                                        (w1\<lparr>clock := Suc (clock w1)\<rparr>))
                | Some e \<Rightarrow> (e, w1\<lparr>clock := Suc (clock w1)\<rparr>)))
      | (Exit n, w1) \<Rightarrow> (Exited n, w1)
      | (Fault, w1) \<Rightarrow> (Killed 11, w1)
      | (Blocked, w1) \<Rightarrow> (Hangs, w1))"

text \<open>\<open>parse_simple_external\<close>, lines 161 to 198.\<close>

definition parse_simple_external ::
  "kernel \<Rightarrow> string \<Rightarrow> simple_command_t \<Rightarrow> world \<Rightarrow> int outcome \<times> world" where
  "parse_simple_external K command s w =
     (case fork_child K (external_child K command s) w of
        (pid, w1) \<Rightarrow>
          if pid = -1 then (Ret (-1), w1)
          else (case sys_waitpid K pid w1 of
                  (WaitFailed, w2) \<Rightarrow> (Ret (-1), w2)
                | (WaitBlocked, w2) \<Rightarrow> (Blocked, w2)
                | (WaitStatus state, w2) \<Rightarrow>
                    if WIFEXITED state then (Ret (WSTOPSIG state), w2) else (Ret (-1), w2)))"

text \<open>\<open>parse_simple\<close>, lines 205 to 224.\<close>

definition parse_simple ::
  "kernel \<Rightarrow> simple_command_t option \<Rightarrow> int \<Rightarrow> command_t option \<Rightarrow> world
     \<Rightarrow> int outcome \<times> world" where
  "parse_simple K s level father w =
     (case s of
        None \<Rightarrow> (Ret (-1), w)
      | Some sc \<Rightarrow>
          (case verb sc of
             None \<Rightarrow> (Ret (-1), w)
           | Some v \<Rightarrow>
               (case get_word (Some v) of
                  None \<Rightarrow> (Fault, w)
                | Some com \<Rightarrow>
                    if com = ''cd'' then parse_simple_cd_case K com sc w
                    else if com = ''exit'' \<or> com = ''quit'' then parse_simple_quit_case K com w
                    else if com = ''pwd'' then parse_simple_pwd_case K com sc w
                    else if CHR ''='' \<in> set com then
                      (case sys_putenv K com w of (r, w1) \<Rightarrow> (Ret r, w1))
                    else parse_simple_external K com sc w)))"

text \<open>How a forked copy of the shell ends: \<open>exit(parse_command(...))\<close> in a parallel
  branch, \<open>exit(!parse_command(...))\<close> in a pipe branch. A \<open>NULL\<close> dereference ends the
  process with \<open>SIGSEGV\<close> (signal 11).\<close>

fun exit_with :: "int outcome \<Rightarrow> proc_end" where
  "exit_with (Ret r) = Exited r"
| "exit_with (Exit n) = Exited n"
| "exit_with Fault = Killed 11"
| "exit_with Blocked = Hangs"

fun exit_with_not :: "int outcome \<Rightarrow> proc_end" where
  "exit_with_not (Ret r) = Exited (if r = 0 then 1 else 0)"
| "exit_with_not (Exit n) = Exited n"
| "exit_with_not Fault = Killed 11"
| "exit_with_not Blocked = Hangs"

lemma fork_child_cong [fundef_cong]:
  "K = K' \<Longrightarrow> w = w' \<Longrightarrow> (\<And>cw. body cw = body' cw) \<Longrightarrow>
   fork_child K body w = fork_child K' body' w'"
proof -
  assume "K = K'" "w = w'" "\<And>cw. body cw = body' cw"
  moreover from this have "body = body'" by (simp add: fun_eq_iff)
  ultimately show ?thesis by simp
qed

text \<open>
  \<open>parse_command\<close> (lines 309 to 369), \<open>run_in_parallel\<close> (lines 229 to 258) and
  \<open>run_on_pipe\<close> (lines 263 to 304). A command pointer is \<open>None\<close> when it is \<open>NULL\<close>;
  reading \<open>c->op\<close> then faults. The branch of the source taken when \<open>fork\<close> returns 0 is
  the body handed to \<open>fork_child\<close>.
\<close>

function
  parse_command ::
    "kernel \<Rightarrow> command_t option \<Rightarrow> int \<Rightarrow> command_t option \<Rightarrow> world \<Rightarrow> int outcome \<times> world"
and
  run_in_parallel ::
    "kernel \<Rightarrow> command_t option \<Rightarrow> command_t option \<Rightarrow> int \<Rightarrow> command_t option \<Rightarrow> world
       \<Rightarrow> bool outcome \<times> world"
and
  run_on_pipe ::
    "kernel \<Rightarrow> command_t option \<Rightarrow> command_t option \<Rightarrow> int \<Rightarrow> command_t option \<Rightarrow> world
       \<Rightarrow> bool outcome \<times> world"
where
  "parse_command K None level father w = (Fault, w)"
| "parse_command K (Some (Command opr s c1 c2)) level father w =
     (let c = Some (Command opr s c1 c2) in
      case opr of
        OP_NONE \<Rightarrow> parse_simple K s level c w
      | OP_SEQUENTIAL \<Rightarrow>
          (case parse_command K c1 level c w of
             (Ret _, w1) \<Rightarrow>
               (case parse_command K c2 level c w1 of
                  (Ret _, w2) \<Rightarrow> (Ret 0, w2)
                | (stop, w2) \<Rightarrow> (stop, w2))
           | (stop, w1) \<Rightarrow> (stop, w1))
      | OP_PARALLEL \<Rightarrow>
          (case run_in_parallel K c1 c2 level c w of
             (Ret _, w1) \<Rightarrow> (Ret 0, w1)
           | (Exit n, w1) \<Rightarrow> (Exit n, w1)
           | (Fault, w1) \<Rightarrow> (Fault, w1)
           | (Blocked, w1) \<Rightarrow> (Blocked, w1))
      | OP_CONDITIONAL_NZERO \<Rightarrow>
          (case parse_command K c1 level c w of
             (Ret ret1, w1) \<Rightarrow>
               if ret1 \<noteq> 0 then parse_command K c2 (level + 1) c w1 else (Ret ret1, w1)
           | (stop, w1) \<Rightarrow> (stop, w1))
      | OP_CONDITIONAL_ZERO \<Rightarrow>
          (case parse_command K c1 level c w of
             (Ret ret1, w1) \<Rightarrow>
               if ret1 = 0 then parse_command K c2 (level + 1) c w1 else (Ret ret1, w1)
           | (stop, w1) \<Rightarrow> (stop, w1))
      | OP_PIPE \<Rightarrow>
          (case run_on_pipe K c1 c2 level c w of
             (Ret ok, w1) \<Rightarrow> if \<not> ok then (Ret 0, w1) else (Ret 1, w1)
           | (Exit n, w1) \<Rightarrow> (Exit n, w1)
           | (Fault, w1) \<Rightarrow> (Fault, w1)
           | (Blocked, w1) \<Rightarrow> (Blocked, w1))
      | OP_OTHER k \<Rightarrow> (Ret (SHELL_EXIT K), w))"
| "run_in_parallel K c1 c2 level father w =
     (case fork_child K
             (\<lambda>cw. case parse_command K c1 (level + 1) father cw of
                      (res, cw1) \<Rightarrow> (exit_with res, cw1)) w of
        (pid1, w1) \<Rightarrow>
          if pid1 = -1 then (Ret False, w1)
          else
            (case fork_child K
                    (\<lambda>cw. case parse_command K c2 (level + 1) father cw of
                             (res, cw1) \<Rightarrow> (exit_with res, cw1)) w1 of
               (pid2, w2) \<Rightarrow>
                 if pid2 = -1 then (Ret False, w2)
                 else
                   (case sys_waitpid K pid1 w2 of
                      (WaitFailed, w3) \<Rightarrow> (Ret False, w3)
                    | (WaitBlocked, w3) \<Rightarrow> (Blocked, w3)
                    | (WaitStatus status1, w3) \<Rightarrow>
                        (case sys_waitpid K pid2 w3 of
                           (WaitFailed, w4) \<Rightarrow> (Ret False, w4)
                         | (WaitBlocked, w4) \<Rightarrow> (Blocked, w4)
                         | (WaitStatus status2, w4) \<Rightarrow>
                             if WIFEXITED status1 \<and> WIFEXITED status2
                             then (Ret (WSTOPSIG status1 = 0 \<and> WSTOPSIG status2 = 0), w4)
                             else (Ret False, w4)))))"
| "run_on_pipe K c1 c2 level father w =
     (case sys_pipe K w of
        (None, w0) \<Rightarrow> (Ret False, w0)
      | (Some (pipe_read, pipe_write), w0) \<Rightarrow>
          (case fork_child K
                  (\<lambda>cw. case sys_dup2 pipe_write 1 (sys_close pipe_read cw) of
                           (r, cw1) \<Rightarrow>
                             if r = -1 then (Exited 1, cw1)
                             else (case parse_command K c1 level father cw1 of
                                     (res, cw2) \<Rightarrow> (exit_with_not res, cw2))) w0 of
             (pid1, w1) \<Rightarrow>
               (case fork_child K
                       (\<lambda>cw. case sys_dup2 pipe_read 0 (sys_close pipe_write cw) of
                                (r, cw1) \<Rightarrow>
                                  if r = -1 then (Exited 1, cw1)
                                  else (case parse_command K c2 level father cw1 of
                                          (res, cw2) \<Rightarrow> (exit_with_not res, cw2))) w1 of
                  (pid2, w2) \<Rightarrow>
                    (case sys_waitpid K pid1 (sys_close pipe_write (sys_close pipe_read w2)) of
                       (WaitFailed, w3) \<Rightarrow> (Ret False, w3)
                     | (WaitBlocked, w3) \<Rightarrow> (Blocked, w3)
                     | (WaitStatus _, w3) \<Rightarrow>
                         (case sys_waitpid K pid2 w3 of
                            (WaitFailed, w4) \<Rightarrow> (Ret False, w4)
                          | (WaitBlocked, w4) \<Rightarrow> (Blocked, w4)
                          | (WaitStatus state, w4) \<Rightarrow>
                              if WIFSTOPPED state \<or> WSTOPSIG state \<noteq> 0
                              then (Ret False, w4) else (Ret True, w4))))))"
  by pat_completeness auto
termination
  by (relation "measure (\<lambda>x. case x of
          Inl (K, c, level, father, w) \<Rightarrow> 2 * size_option size c + 1
        | Inr (Inl (K, c1, c2, level, father, w)) \<Rightarrow> 2 * (size_option size c1 + size_option size c2) + 2
        | Inr (Inr (K, c1, c2, level, father, w)) \<Rightarrow> 2 * (size_option size c1 + size_option size c2) + 2)")
     auto

section \<open>Names for the parts of a run\<close>

text \<open>
  The mode in which \<open>file_operations\<close> opens the output and error targets (the one its
  local \<open>counter\<close> selects).
\<close>

definition write_mode :: "simple_command_t \<Rightarrow> open_mode" where
  "write_mode s = (if IO_OUT_APPEND s \<or> IO_ERR_APPEND s then O_WRONLY_CREAT_APPEND
                   else O_WRONLY_CREAT_TRUNC)"

text \<open>
  The child body of \<open>run_in_parallel\<close> (lines 239 to 240 and 246 to 247), the two child
  bodies of \<open>run_on_pipe\<close> (lines 275 to 281 and 284 to 290) and its two waits (lines 295
  to 303), under names of their own, so that a statement can speak of what one child does.
\<close>

definition parallel_child ::
  "kernel \<Rightarrow> command_t option \<Rightarrow> int \<Rightarrow> command_t option \<Rightarrow> world \<Rightarrow> proc_end \<times> world" where
  "parallel_child K c level father =
     (\<lambda>cw. case parse_command K c (level + 1) father cw of
             (res, cw1) \<Rightarrow> (exit_with res, cw1))"

definition pipe_producer ::
  "kernel \<Rightarrow> command_t option \<Rightarrow> int \<Rightarrow> command_t option \<Rightarrow> int \<Rightarrow> int \<Rightarrow> world
     \<Rightarrow> proc_end \<times> world" where
  "pipe_producer K c1 level father pipe_read pipe_write =
     (\<lambda>cw. case sys_dup2 pipe_write 1 (sys_close pipe_read cw) of
             (r, cw1) \<Rightarrow>
               if r = -1 then (Exited 1, cw1)
               else (case parse_command K c1 level father cw1 of
                       (res, cw2) \<Rightarrow> (exit_with_not res, cw2)))"

definition pipe_consumer ::
  "kernel \<Rightarrow> command_t option \<Rightarrow> int \<Rightarrow> command_t option \<Rightarrow> int \<Rightarrow> int \<Rightarrow> world
     \<Rightarrow> proc_end \<times> world" where
  "pipe_consumer K c2 level father pipe_read pipe_write =
     (\<lambda>cw. case sys_dup2 pipe_read 0 (sys_close pipe_write cw) of
             (r, cw1) \<Rightarrow>
               if r = -1 then (Exited 1, cw1)
               else (case parse_command K c2 level father cw1 of
                       (res, cw2) \<Rightarrow> (exit_with_not res, cw2)))"

definition pipe_wait :: "kernel \<Rightarrow> int \<Rightarrow> int \<Rightarrow> world \<Rightarrow> bool outcome \<times> world" where
  "pipe_wait K pid1 pid2 w =
                    (case sys_waitpid K pid1 w of
                       (WaitFailed, w3) \<Rightarrow> (Ret False, w3)
                     | (WaitBlocked, w3) \<Rightarrow> (Blocked, w3)
                     | (WaitStatus _, w3) \<Rightarrow>
                         (case sys_waitpid K pid2 w3 of
                            (WaitFailed, w4) \<Rightarrow> (Ret False, w4)
                          | (WaitBlocked, w4) \<Rightarrow> (Blocked, w4)
                          | (WaitStatus state, w4) \<Rightarrow>
                              if WIFSTOPPED state \<or> WSTOPSIG state \<noteq> 0
                              then (Ret False, w4) else (Ret True, w4)))"

section \<open>A concrete system for the examples\<close>

text \<open>
  A system with sixteen descriptors, where every file but \<open>missing\<close> can be opened, the
  directories \<open>/a/b/sub\<close> and \<open>/usr\<close> exist, and the programs \<open>true\<close> and \<open>false\<close> are
  installed; a shell in \<open>/a/b\<close> with the three standard descriptors on a terminal.
\<close>

definition kernel0 :: kernel where
  "kernel0 = \<lparr>SHELL_EXIT = -100, PATH_MAX = 4096, OPEN_MAX = 16,
     fork_ok = (\<lambda>t. True), wait_ok = (\<lambda>t. True), can_open = (\<lambda>t p m. p \<noteq> ''missing''),
     resolve_dir = (\<lambda>t p. if p = ''/a/b/sub'' \<or> p = ''/usr'' then Some p else None),
     program = (\<lambda>t c args. if c = ''true'' then Some (Exited 0)
                             else if c = ''false'' then Some (Exited 1) else None),
     putenv_ok = (\<lambda>t. True)\<rparr>"

definition world0 :: world where
  "world0 = \<lparr>cwd = ''/a/b'',
     fds = (\<lambda>fd. if fd = 0 \<or> fd = 1 \<or> fd = 2 then Some OTerminal else None),
     children = [], environ = [], trace = [], clock = 0, next_pid = 0, next_ofile = 0\<rparr>"

definition simple0 :: "string \<Rightarrow> string list \<Rightarrow> simple_command_t" where
  "simple0 v ps = \<lparr>verb = Some v, params = ps, inp = None, out = None, err = None,
       IO_OUT_APPEND = False, IO_ERR_APPEND = False\<rparr>"

definition leaf :: "simple_command_t \<Rightarrow> command_t option" where
  "leaf s = Some (Command OP_NONE (Some s) None None)"

definition node :: "operator_t \<Rightarrow> command_t option \<Rightarrow> command_t option \<Rightarrow> command_t option" where
  "node opr a b = Some (Command opr None a b)"

section \<open>Facts about the system calls\<close>

lemma lowest_free_Some: "lowest_free K w lo = Some fd \<Longrightarrow> fds w fd = None \<and> 0 \<le> fd"
  by (auto simp: lowest_free_def find_Some_iff)

lemma sys_open_cases:
  "sys_open K (Some p) m w = (fd, w') \<Longrightarrow>
     (fd = -1 \<and> w' = log (SysOpen (Some p) m (-1)) w) \<or>
     (0 \<le> fd \<and> fds w fd = None \<and>
      w' = log (SysOpen (Some p) m fd)
             (w\<lparr>fds := (fds w)(fd \<mapsto> OFile (next_ofile w) p m), next_ofile := Suc (next_ofile w)\<rparr>))"
  by (auto simp: sys_open_def split: if_splits option.splits dest: lowest_free_Some)

lemma trace_log: "trace (log e w) = trace w @ [e]"
  by (simp add: log_def)

lemma fds_log: "fds (log e w) = fds w"
  by (simp add: log_def)

lemma next_ofile_log: "next_ofile (log e w) = next_ofile w"
  by (simp add: log_def)

lemma trace_sys_close: "trace (sys_close fd w) = trace w @ [SysClose fd]"
  by (simp add: sys_close_def trace_log)

lemma fds_sys_close: "fds (sys_close fd w) = (fds w)(fd := None)"
  by (simp add: sys_close_def fds_log)

lemma children_sys_close: "children (sys_close fd w) = children w"
  by (simp add: sys_close_def log_def)

lemma trace_sys_dup2:
  "trace (snd (sys_dup2 a b w)) = trace w @ [SysDup2 a b (fst (sys_dup2 a b w))]"
  by (simp add: sys_dup2_def trace_log split: option.splits)

lemma fds_sys_dup2_ok:
  "0 \<le> a \<Longrightarrow> 0 \<le> b \<Longrightarrow> fds w a = Some f \<Longrightarrow> fds (snd (sys_dup2 a b w)) = (fds w)(b \<mapsto> f)"
  by (simp add: sys_dup2_def fds_log)

lemma next_ofile_sys_dup2: "next_ofile (snd (sys_dup2 a b w)) = next_ofile w"
  by (simp add: sys_dup2_def next_ofile_log split: option.splits)

lemma sys_pipe_Some:
  assumes "sys_pipe K w = (Some (rd, wr), w0)"
  shows "0 \<le> rd" "0 \<le> wr" "rd \<noteq> wr" "fds w0 rd \<noteq> None" "fds w0 wr \<noteq> None"
    "children w0 = children w" "next_pid w0 = next_pid w"
  using assms
  by (auto simp: sys_pipe_def log_def split: option.splits dest!: lowest_free_Some)

lemma fds_child_world: "fds (child_world (forked w)) = fds w"
  by (simp add: child_world_def forked_def log_def)

lemma fork_child_ok:
  assumes "fork_ok K (clock w)" and "fork_child K body w = (pid, w')"
  shows "pid = 1 + int (next_pid w)" "next_pid w' = Suc (next_pid w)" "fds w' = fds w"
    "children w' = children w @ [(pid, fst (body (child_world (forked w))))]"
  using assms
  by (auto simp: fork_child_def forked_def log_def split: prod.splits)

lemma fork_child_trace:
  assumes "fork_ok K (clock w)" and "fork_child K body w = (pid, w')"
  shows "trace w' = trace w @ [SysFork pid]"
  using assms
  by (auto simp: fork_child_def forked_def log_def split: prod.splits)

lemma find_Some_holds: "find P xs = Some x \<Longrightarrow> x \<in> set xs \<and> P x"
  by (induction xs) (auto split: if_splits)

lemma sys_waitpid_status:
  assumes "sys_waitpid K pid w = (WaitStatus st, w')" and "pid \<noteq> -1"
  shows "\<exists>e. find (\<lambda>(p, e). e \<noteq> Hangs) (filter (\<lambda>(p, e). p = pid) (children w)) = Some (pid, e)
            \<and> st = wstatus e"
    and "children w' = filter (\<lambda>(q, e'). q \<noteq> pid) (children w)"
proof -
  let ?cands = "filter (\<lambda>(p, e). p = pid) (children w)"
  from assms obtain p e where fnd: "find (\<lambda>(p, e). e \<noteq> Hangs) ?cands = Some (p, e)"
    and st: "st = wstatus e"
    and w': "w' = log (SysWait pid (Some (wstatus e)))
                    (w\<lparr>children := filter (\<lambda>(q, e'). q \<noteq> p) (children w)\<rparr>)"
    by (auto simp: sys_waitpid_def Let_def split: if_splits option.splits)
  from find_Some_holds[OF fnd] have "p = pid" by auto
  with fnd st show "\<exists>e. find (\<lambda>(p, e). e \<noteq> Hangs) ?cands = Some (pid, e) \<and> st = wstatus e"
    by auto
  from \<open>p = pid\<close> w' show "children w' = filter (\<lambda>(q, e'). q \<noteq> pid) (children w)"
    by (simp add: log_def)
qed

lemma stale_filter:
  assumes "list_all (\<lambda>(p, e). p \<le> int n) cs" and "int n < pid"
  shows "filter (\<lambda>(p, e). p = pid) cs = []" "filter (\<lambda>(q, e). q \<noteq> pid) cs = cs"
  using assms by (induction cs) auto

section \<open>Leaves and unknown operators\<close>

text \<open>
  Claim C9. A leaf whose simple command is \<open>NULL\<close>, or whose verb is \<open>NULL\<close>, evaluates to
  the failure status \<open>-1\<close> at once: the state of the process is returned as it was, so no
  process was spawned and no system call was made.
\<close>

theorem leaf_without_verb_fails:
  "parse_command K (Some (Command OP_NONE None c1 c2)) level father w = (Ret (-1), w) \<and>
   parse_command K (Some (Command OP_NONE (Some (s\<lparr>verb := None\<rparr>)) c1 c2)) level father w
     = (Ret (-1), w)"
  by (simp add: parse_simple_def)

text \<open>
  Claim C10. A node whose operator tag is neither the leaf tag nor one of the five operators
  evaluates to the terminate sentinel \<open>SHELL_EXIT\<close>, with no effect.
\<close>

theorem unknown_operator_returns_SHELL_EXIT:
  "parse_command K (Some (Command (OP_OTHER k) s c1 c2)) level father w = (Ret (SHELL_EXIT K), w)"
  by simp

section \<open>Conditional composition\<close>

text \<open>
  Claim C4. When the left child \<open>A\<close> of a conditional node returns status \<open>a\<close>: under
  \<open>OP_CONDITIONAL_ZERO\<close> (\<open>A && B\<close>) the node is the evaluation of \<open>B\<close> in the state \<open>A\<close>
  left when \<open>a = 0\<close>, and otherwise returns \<open>a\<close> in that state with \<open>B\<close> not evaluated;
  under \<open>OP_CONDITIONAL_NZERO\<close> (\<open>A || B\<close>) the same with \<open>a \<noteq> 0\<close>.
\<close>

theorem conditional_short_circuit:
  "(parse_command K A level (Some (Command OP_CONDITIONAL_ZERO s A B)) w = (Ret a, w1) \<longrightarrow>
      parse_command K (Some (Command OP_CONDITIONAL_ZERO s A B)) level father w =
        (if a = 0 then parse_command K B (level + 1) (Some (Command OP_CONDITIONAL_ZERO s A B)) w1
         else (Ret a, w1))) \<and>
   (parse_command K A level (Some (Command OP_CONDITIONAL_NZERO s A B)) w = (Ret a, w1) \<longrightarrow>
      parse_command K (Some (Command OP_CONDITIONAL_NZERO s A B)) level father w =
        (if a \<noteq> 0 then parse_command K B (level + 1) (Some (Command OP_CONDITIONAL_NZERO s A B)) w1
         else (Ret a, w1)))"
  by simp

text \<open>
  The theorem at \<open>pwd && exit\<close> (the left side succeeds, the right side runs) and at
  \<open>cd nowhere || exit\<close> (the left side fails, the right side runs).
\<close>

theorem conditional_short_circuit_witness:
  "fst (parse_command kernel0 (leaf (simple0 ''pwd'' [])) 0
          (node OP_CONDITIONAL_ZERO (leaf (simple0 ''pwd'' [])) (leaf (simple0 ''exit'' []))) world0)
     = Ret 0 \<and>
   fst (parse_command kernel0
          (node OP_CONDITIONAL_ZERO (leaf (simple0 ''pwd'' [])) (leaf (simple0 ''exit'' [])))
          0 None world0) = Ret (-100) \<and>
   fst (parse_command kernel0 (leaf (simple0 ''cd'' [''nowhere''])) 0
          (node OP_CONDITIONAL_NZERO (leaf (simple0 ''cd'' [''nowhere''])) (leaf (simple0 ''exit'' [])))
          world0)
     = Ret (-1) \<and>
   fst (parse_command kernel0
          (node OP_CONDITIONAL_NZERO (leaf (simple0 ''cd'' [''nowhere''])) (leaf (simple0 ''exit'' [])))
          0 None world0) = Ret (-100)"
proof -
  let ?pwd = "leaf (simple0 ''pwd'' [])"
  let ?cd = "leaf (simple0 ''cd'' [''nowhere''])"
  let ?exit = "leaf (simple0 ''exit'' [])"
  let ?and = "Some (Command OP_CONDITIONAL_ZERO None ?pwd ?exit)"
  let ?or = "Some (Command OP_CONDITIONAL_NZERO None ?cd ?exit)"
  have a: "fst (parse_command kernel0 ?pwd 0 ?and world0) = Ret 0" by code_simp
  have b: "fst (parse_command kernel0 ?cd 0 ?or world0) = Ret (-1)" by code_simp
  have e1: "fst (parse_command kernel0 ?exit (0 + 1) ?and
                   (snd (parse_command kernel0 ?pwd 0 ?and world0))) = Ret (-100)"
    by code_simp
  have e2: "fst (parse_command kernel0 ?exit (0 + 1) ?or
                   (snd (parse_command kernel0 ?cd 0 ?or world0))) = Ret (-100)"
    by code_simp
  from a have ha: "parse_command kernel0 ?pwd 0 ?and world0
                     = (Ret 0, snd (parse_command kernel0 ?pwd 0 ?and world0))"
    by (simp add: prod_eq_iff)
  from b have hb: "parse_command kernel0 ?cd 0 ?or world0
                     = (Ret (-1), snd (parse_command kernel0 ?cd 0 ?or world0))"
    by (simp add: prod_eq_iff)
  from conditional_short_circuit[where K = kernel0 and A = ?pwd and B = ?exit and s = None
         and level = 0 and father = None and w = world0, THEN conjunct1, rule_format, OF ha] e1
  have c1: "fst (parse_command kernel0 ?and 0 None world0) = Ret (-100)" by simp
  from conditional_short_circuit[where K = kernel0 and A = ?cd and B = ?exit and s = None
         and level = 0 and father = None and w = world0, THEN conjunct2, rule_format, OF hb] e2
  have c2: "fst (parse_command kernel0 ?or 0 None world0) = Ret (-100)" by simp
  from a b c1 c2 show ?thesis by (simp add: node_def)
qed

section \<open>The built-in \<open>cd\<close>\<close>

text \<open>
  Claim C7. \<open>shell_cd\<close> with no argument succeeds and changes nothing. With an absolute
  path it calls \<open>chdir\<close> on that path. With a relative path it calls \<open>chdir\<close> on the
  current directory, a slash and the path, provided the three together with the terminating
  byte fit in \<open>PATH_MAX\<close>; when they do not, it fails without calling \<open>chdir\<close> and the
  directory stays. Whenever it fails (so also for a path that does not exist) the working
  directory is unchanged.
\<close>

theorem shell_cd_behaviour:
  "shell_cd K [] w = (True, w) \<and>
   (d \<noteq> [] \<and> hd d = CHR ''/'' \<longrightarrow>
      shell_cd K (d # ds) w =
        (case resolve_dir K (clock w) d of
           None \<Rightarrow> (False, log (SysChdir d (-1)) w)
         | Some t \<Rightarrow> (True, log (SysChdir d 0) (w\<lparr>cwd := t\<rparr>)))) \<and>
   (\<not> (d \<noteq> [] \<and> hd d = CHR ''/'') \<and> length (cwd w) + length d + 1 < PATH_MAX K \<longrightarrow>
      shell_cd K (d # ds) w =
        (case resolve_dir K (Suc (clock w)) (cwd w @ ''/'' @ d) of
           None \<Rightarrow> (False, log (SysChdir (cwd w @ ''/'' @ d) (-1)) (log (SysGetcwd (Some (cwd w))) w))
         | Some t \<Rightarrow> (True, log (SysChdir (cwd w @ ''/'' @ d) 0)
                              ((log (SysGetcwd (Some (cwd w))) w)\<lparr>cwd := t\<rparr>)))) \<and>
   (\<not> (d \<noteq> [] \<and> hd d = CHR ''/'') \<and> length (cwd w) + length d + 1 \<ge> PATH_MAX K \<longrightarrow>
      fst (shell_cd K (d # ds) w) = False \<and> cwd (snd (shell_cd K (d # ds) w)) = cwd w \<and>
      (\<forall>p r. SysChdir p r \<notin> set (trace (snd (shell_cd K (d # ds) w))) - set (trace w))) \<and>
   (fst (shell_cd K dir w) = False \<longrightarrow> cwd (snd (shell_cd K dir w)) = cwd w)"
  by (auto simp: shell_cd_def sys_chdir_def sys_getcwd_def log_def split: list.splits option.splits)

text \<open>
  The theorem at \<open>/usr\<close>, at \<open>sub\<close> from \<open>/a/b\<close>, at \<open>sub\<close> with a path limit of eight
  bytes, and at a directory that does not exist.
\<close>

theorem shell_cd_behaviour_witness:
  "shell_cd kernel0 [] world0 = (True, world0) \<and>
   fst (shell_cd kernel0 [''/usr''] world0) = True \<and>
   cwd (snd (shell_cd kernel0 [''/usr''] world0)) = ''/usr'' \<and>
   fst (shell_cd kernel0 [''sub''] world0) = True \<and>
   cwd (snd (shell_cd kernel0 [''sub''] world0)) = ''/a/b/sub'' \<and>
   fst (shell_cd (kernel0\<lparr>PATH_MAX := 8\<rparr>) [''sub''] world0) = False \<and>
   cwd (snd (shell_cd (kernel0\<lparr>PATH_MAX := 8\<rparr>) [''sub''] world0)) = ''/a/b'' \<and>
   fst (shell_cd kernel0 [''nowhere''] world0) = False \<and>
   cwd (snd (shell_cd kernel0 [''nowhere''] world0)) = ''/a/b''"
proof -
  note T = shell_cd_behaviour[where K = kernel0 and w = world0 and ds = "[]"]
  have none: "shell_cd kernel0 [] world0 = (True, world0)"
    using T[of "[]" "[]"] by simp
  have "''/usr'' \<noteq> [] \<and> hd ''/usr'' = CHR ''/''" by simp
  from T[of "''/usr''" "[]", THEN conjunct2, THEN conjunct1, rule_format, OF this]
  have abs: "fst (shell_cd kernel0 [''/usr''] world0) = True \<and>
             cwd (snd (shell_cd kernel0 [''/usr''] world0)) = ''/usr''"
    by (simp add: kernel0_def log_def)
  have "\<not> (''sub'' \<noteq> [] \<and> hd ''sub'' = CHR ''/'') \<and>
        length (cwd world0) + length ''sub'' + 1 < PATH_MAX kernel0"
    by (simp add: kernel0_def world0_def)
  from T[of "''sub''" "[]", THEN conjunct2, THEN conjunct2, THEN conjunct1, rule_format, OF this]
  have rel: "fst (shell_cd kernel0 [''sub''] world0) = True \<and>
             cwd (snd (shell_cd kernel0 [''sub''] world0)) = ''/a/b/sub''"
    by (simp add: kernel0_def world0_def log_def)
  have "\<not> (''sub'' \<noteq> [] \<and> hd ''sub'' = CHR ''/'') \<and>
        length (cwd world0) + length ''sub'' + 1 \<ge> PATH_MAX (kernel0\<lparr>PATH_MAX := 8\<rparr>)"
    by (simp add: world0_def)
  from shell_cd_behaviour[where K = "kernel0\<lparr>PATH_MAX := 8\<rparr>" and w = world0 and ds = "[]"
         and d = "''sub''" and dir = "[]",
         THEN conjunct2, THEN conjunct2, THEN conjunct2, THEN conjunct1, rule_format, OF this]
  have long: "fst (shell_cd (kernel0\<lparr>PATH_MAX := 8\<rparr>) [''sub''] world0) = False \<and>
              cwd (snd (shell_cd (kernel0\<lparr>PATH_MAX := 8\<rparr>) [''sub''] world0)) = ''/a/b''"
    by (simp add: world0_def)
  have f: "fst (shell_cd kernel0 [''nowhere''] world0) = False" by code_simp
  from T[of "[]" "[''nowhere'']", THEN conjunct2, THEN conjunct2, THEN conjunct2, THEN conjunct2,
         rule_format, OF f]
  have missing: "cwd (snd (shell_cd kernel0 [''nowhere''] world0)) = ''/a/b''"
    by (simp add: world0_def)
  from none abs rel long f missing show ?thesis by simp
qed

section \<open>Redirections\<close>

lemma redirect_out_err_same:
  "out s = Some p \<Longrightarrow> err s = Some p \<Longrightarrow>
   redirect_out_err K s w =
     (let fd = fst (sys_open K (Some p) (write_mode s) w);
          w3 = snd (sys_dup2 fd 2 (snd (sys_dup2 fd 1 (snd (sys_open K (Some p) (write_mode s) w)))))
      in if fd \<noteq> -1 then sys_close fd w3 else w3)"
  by (simp add: redirect_out_err_def get_word_def open_for_counter_def write_mode_def
        Let_def split_beta)

lemma redirect_out_err_distinct:
  "out s = Some p \<Longrightarrow> err s = Some q \<Longrightarrow> p \<noteq> q \<Longrightarrow>
   redirect_out_err K s w =
     (let fd1 = fst (sys_open K (Some p) (write_mode s) w);
          w2 = snd (sys_dup2 fd1 1 (snd (sys_open K (Some p) (write_mode s) w)));
          fd2 = fst (sys_open K (Some q) (write_mode s) w2);
          w4 = snd (sys_dup2 fd2 2 (snd (sys_open K (Some q) (write_mode s) w2)));
          w5 = (if fd1 \<noteq> -1 \<and> fd1 \<noteq> fd2 then sys_close fd1 w4 else w4)
      in if fd2 \<noteq> -1 then sys_close fd2 w5 else w5)"
  by (simp add: redirect_out_err_def get_word_def open_for_counter_def write_mode_def
        Let_def split_beta)

lemma same_path_run:
  assumes a: "out s = Some p" "err s = Some p"
  shows "\<exists>fd r1 r2.
         trace (redirect_out_err K s w) =
           trace w @ [SysOpen (Some p) (write_mode s) fd, SysDup2 fd 1 r1, SysDup2 fd 2 r2]
                   @ (if fd = -1 then [] else [SysClose fd]) \<and>
         (fd \<noteq> -1 \<and> fd \<noteq> 1 \<and> fd \<noteq> 2 \<longrightarrow>
            fds (redirect_out_err K s w) 1 = Some (OFile (next_ofile w) p (write_mode s)) \<and>
            fds (redirect_out_err K s w) 2 = Some (OFile (next_ofile w) p (write_mode s)) \<and>
            fds (redirect_out_err K s w) fd = None)"
proof -
  obtain fd w1 where o: "sys_open K (Some p) (write_mode s) w = (fd, w1)"
    by (cases "sys_open K (Some p) (write_mode s) w")
  let ?w2 = "snd (sys_dup2 fd 1 w1)"
  let ?w3 = "snd (sys_dup2 fd 2 ?w2)"
  have run: "redirect_out_err K s w = (if fd \<noteq> -1 then sys_close fd ?w3 else ?w3)"
    unfolding redirect_out_err_same[OF a] Let_def
    by (simp only: o fst_conv snd_conv)
  have tr1: "trace w1 = trace w @ [SysOpen (Some p) (write_mode s) fd]"
    using sys_open_cases[OF o] by (auto simp: trace_log)
  have tr: "trace (redirect_out_err K s w) =
           trace w @ [SysOpen (Some p) (write_mode s) fd, SysDup2 fd 1 (fst (sys_dup2 fd 1 w1)),
                      SysDup2 fd 2 (fst (sys_dup2 fd 2 ?w2))]
                   @ (if fd = -1 then [] else [SysClose fd])"
    by (simp add: run trace_sys_close trace_sys_dup2 tr1)
  have tab: "fds (redirect_out_err K s w) 1 = Some (OFile (next_ofile w) p (write_mode s)) \<and>
            fds (redirect_out_err K s w) 2 = Some (OFile (next_ofile w) p (write_mode s)) \<and>
            fds (redirect_out_err K s w) fd = None"
    if ne: "fd \<noteq> -1 \<and> fd \<noteq> 1 \<and> fd \<noteq> 2"
  proof -
    from sys_open_cases[OF o] ne have pos: "0 \<le> fd"
      and f1: "fds w1 fd = Some (OFile (next_ofile w) p (write_mode s))"
      by (auto simp: fds_log)
    have f2: "fds ?w2 = (fds w1)(1 \<mapsto> OFile (next_ofile w) p (write_mode s))"
      using pos f1 by (simp add: fds_sys_dup2_ok)
    have f3: "fds ?w3 = (fds ?w2)(2 \<mapsto> OFile (next_ofile w) p (write_mode s))"
      using pos f1 ne by (simp add: fds_sys_dup2_ok f2)
    show ?thesis using ne by (simp add: run fds_sys_close f3 f2)
  qed
  show ?thesis
    using tr tab by blast
qed

lemma distinct_paths_run:
  assumes a: "out s = Some p" "err s = Some q" "p \<noteq> q"
  shows "\<exists>fd1 fd2 r1 r2.
         trace (redirect_out_err K s w) =
           trace w @ [SysOpen (Some p) (write_mode s) fd1, SysDup2 fd1 1 r1,
                      SysOpen (Some q) (write_mode s) fd2, SysDup2 fd2 2 r2]
                   @ (if fd1 = -1 then [] else [SysClose fd1])
                   @ (if fd2 = -1 then [] else [SysClose fd2]) \<and>
         (fd1 \<noteq> -1 \<longrightarrow> fd1 \<noteq> fd2) \<and>
         (fd1 \<noteq> -1 \<and> fd1 \<noteq> 1 \<and> fd1 \<noteq> 2 \<and> fd2 \<noteq> -1 \<and> fd2 \<noteq> 2 \<longrightarrow>
            fds (redirect_out_err K s w) 1 = Some (OFile (next_ofile w) p (write_mode s)) \<and>
            fds (redirect_out_err K s w) 2 = Some (OFile (Suc (next_ofile w)) q (write_mode s)))"
proof -
  obtain fd1 w1 where o1: "sys_open K (Some p) (write_mode s) w = (fd1, w1)"
    by (cases "sys_open K (Some p) (write_mode s) w")
  let ?w2 = "snd (sys_dup2 fd1 1 w1)"
  obtain fd2 w3 where o2: "sys_open K (Some q) (write_mode s) ?w2 = (fd2, w3)"
    by (cases "sys_open K (Some q) (write_mode s) ?w2")
  let ?w4 = "snd (sys_dup2 fd2 2 w3)"
  let ?w5 = "if fd1 \<noteq> -1 \<and> fd1 \<noteq> fd2 then sys_close fd1 ?w4 else ?w4"
  have run: "redirect_out_err K s w = (if fd2 \<noteq> -1 then sys_close fd2 ?w5 else ?w5)"
    unfolding redirect_out_err_distinct[OF a] Let_def
    by (simp only: o1 o2 fst_conv snd_conv)
  have tr1: "trace w1 = trace w @ [SysOpen (Some p) (write_mode s) fd1]"
    using sys_open_cases[OF o1] by (auto simp: trace_log)
  have tr3: "trace w3 = trace ?w2 @ [SysOpen (Some q) (write_mode s) fd2]"
    using sys_open_cases[OF o2] by (auto simp: trace_log)
  have ne12: "fd1 \<noteq> fd2" if "fd1 \<noteq> -1"
  proof
    assume e: "fd1 = fd2"
    from sys_open_cases[OF o1] that have pos: "0 \<le> fd1"
      and f1: "fds w1 fd1 = Some (OFile (next_ofile w) p (write_mode s))"
      by (auto simp: fds_log)
    have "fds ?w2 fd1 \<noteq> None" using pos f1 by (simp add: fds_sys_dup2_ok)
    moreover from sys_open_cases[OF o2] that e have "fds ?w2 fd1 = None" by auto
    ultimately show False by simp
  qed
  have tr: "trace (redirect_out_err K s w) =
           trace w @ [SysOpen (Some p) (write_mode s) fd1, SysDup2 fd1 1 (fst (sys_dup2 fd1 1 w1)),
                      SysOpen (Some q) (write_mode s) fd2, SysDup2 fd2 2 (fst (sys_dup2 fd2 2 w3))]
                   @ (if fd1 = -1 then [] else [SysClose fd1])
                   @ (if fd2 = -1 then [] else [SysClose fd2])"
    using ne12 by (simp add: run trace_sys_close trace_sys_dup2 tr1 tr3)
  have tab: "fds (redirect_out_err K s w) 1 = Some (OFile (next_ofile w) p (write_mode s)) \<and>
            fds (redirect_out_err K s w) 2 = Some (OFile (Suc (next_ofile w)) q (write_mode s))"
    if ne: "fd1 \<noteq> -1 \<and> fd1 \<noteq> 1 \<and> fd1 \<noteq> 2 \<and> fd2 \<noteq> -1 \<and> fd2 \<noteq> 2"
  proof -
    from sys_open_cases[OF o1] ne have pos1: "0 \<le> fd1"
      and f1: "fds w1 fd1 = Some (OFile (next_ofile w) p (write_mode s))"
      and n1: "next_ofile w1 = Suc (next_ofile w)"
      by (auto simp: fds_log next_ofile_log)
    have f2: "fds ?w2 = (fds w1)(1 \<mapsto> OFile (next_ofile w) p (write_mode s))"
      using pos1 f1 by (simp add: fds_sys_dup2_ok)
    have n2: "next_ofile ?w2 = Suc (next_ofile w)"
      by (simp add: next_ofile_sys_dup2 n1)
    from sys_open_cases[OF o2] ne have pos2: "0 \<le> fd2"
      and f3: "fds w3 = (fds ?w2)(fd2 \<mapsto> OFile (Suc (next_ofile w)) q (write_mode s))"
      and free2: "fds ?w2 fd2 = None"
      by (auto simp: fds_log n2)
    have fd2ne1: "fd2 \<noteq> 1" using free2 f2 by auto
    have f4: "fds ?w4 = (fds w3)(2 \<mapsto> OFile (Suc (next_ofile w)) q (write_mode s))"
      using pos2 f3 by (simp add: fds_sys_dup2_ok)
    show ?thesis using ne fd2ne1 ne12 by (simp add: run fds_sys_close f4 f3 f2)
  qed
  show ?thesis
    using tr tab ne12 by blast
qed

text \<open>
  Claim C8. When the output and the error target are the same path, the output block of
  \<open>file_operations\<close> makes exactly these calls: one \<open>open\<close> of the path, \<open>dup2\<close> of the
  descriptor it returned onto 1 and onto 2, and one \<open>close\<close> of that descriptor (none when
  the \<open>open\<close> failed); afterwards descriptors 1 and 2 refer to the one open file. When the
  two paths differ, each is opened by its own \<open>open\<close>, the two descriptors differ, each is
  closed once, and descriptors 1 and 2 refer to two different open files.
\<close>

theorem redirect_aliasing:
  "(out s = Some p \<and> err s = Some p \<longrightarrow>
      (\<exists>fd r1 r2.
         trace (redirect_out_err K s w) =
           trace w @ [SysOpen (Some p) (write_mode s) fd, SysDup2 fd 1 r1, SysDup2 fd 2 r2]
                   @ (if fd = -1 then [] else [SysClose fd]) \<and>
         (fd \<noteq> -1 \<and> fd \<noteq> 1 \<and> fd \<noteq> 2 \<longrightarrow>
            fds (redirect_out_err K s w) 1 = Some (OFile (next_ofile w) p (write_mode s)) \<and>
            fds (redirect_out_err K s w) 2 = Some (OFile (next_ofile w) p (write_mode s)) \<and>
            fds (redirect_out_err K s w) fd = None))) \<and>
   (out s = Some p \<and> err s = Some q \<and> p \<noteq> q \<longrightarrow>
      (\<exists>fd1 fd2 r1 r2.
         trace (redirect_out_err K s w) =
           trace w @ [SysOpen (Some p) (write_mode s) fd1, SysDup2 fd1 1 r1,
                      SysOpen (Some q) (write_mode s) fd2, SysDup2 fd2 2 r2]
                   @ (if fd1 = -1 then [] else [SysClose fd1])
                   @ (if fd2 = -1 then [] else [SysClose fd2]) \<and>
         (fd1 \<noteq> -1 \<longrightarrow> fd1 \<noteq> fd2) \<and>
         (fd1 \<noteq> -1 \<and> fd1 \<noteq> 1 \<and> fd1 \<noteq> 2 \<and> fd2 \<noteq> -1 \<and> fd2 \<noteq> 2 \<longrightarrow>
            fds (redirect_out_err K s w) 1 = Some (OFile (next_ofile w) p (write_mode s)) \<and>
            fds (redirect_out_err K s w) 2 = Some (OFile (Suc (next_ofile w)) q (write_mode s)))))"
proof (intro conjI impI)
  assume "out s = Some p \<and> err s = Some p"
  then show "\<exists>fd r1 r2.
         trace (redirect_out_err K s w) =
           trace w @ [SysOpen (Some p) (write_mode s) fd, SysDup2 fd 1 r1, SysDup2 fd 2 r2]
                   @ (if fd = -1 then [] else [SysClose fd]) \<and>
         (fd \<noteq> -1 \<and> fd \<noteq> 1 \<and> fd \<noteq> 2 \<longrightarrow>
            fds (redirect_out_err K s w) 1 = Some (OFile (next_ofile w) p (write_mode s)) \<and>
            fds (redirect_out_err K s w) 2 = Some (OFile (next_ofile w) p (write_mode s)) \<and>
            fds (redirect_out_err K s w) fd = None)"
    using same_path_run[of s p K w] by simp
next
  assume "out s = Some p \<and> err s = Some q \<and> p \<noteq> q"
  then show "\<exists>fd1 fd2 r1 r2.
         trace (redirect_out_err K s w) =
           trace w @ [SysOpen (Some p) (write_mode s) fd1, SysDup2 fd1 1 r1,
                      SysOpen (Some q) (write_mode s) fd2, SysDup2 fd2 2 r2]
                   @ (if fd1 = -1 then [] else [SysClose fd1])
                   @ (if fd2 = -1 then [] else [SysClose fd2]) \<and>
         (fd1 \<noteq> -1 \<longrightarrow> fd1 \<noteq> fd2) \<and>
         (fd1 \<noteq> -1 \<and> fd1 \<noteq> 1 \<and> fd1 \<noteq> 2 \<and> fd2 \<noteq> -1 \<and> fd2 \<noteq> 2 \<longrightarrow>
            fds (redirect_out_err K s w) 1 = Some (OFile (next_ofile w) p (write_mode s)) \<and>
            fds (redirect_out_err K s w) 2 = Some (OFile (Suc (next_ofile w)) q (write_mode s)))"
    using distinct_paths_run[of s p q K w] by simp
qed

text \<open>
  The theorem at \<open>pwd > f 2> f\<close> and at \<open>pwd > f 2> g\<close>: descriptor 3 is opened once and
  closed once in the first, 3 and 4 in the second.
\<close>

theorem redirect_aliasing_witness:
  "trace (redirect_out_err kernel0 ((simple0 ''pwd'' [])\<lparr>out := Some ''f'', err := Some ''f''\<rparr>) world0)
     = [SysOpen (Some ''f'') O_WRONLY_CREAT_TRUNC 3, SysDup2 3 1 1, SysDup2 3 2 2, SysClose 3] \<and>
   fds (redirect_out_err kernel0 ((simple0 ''pwd'' [])\<lparr>out := Some ''f'', err := Some ''f''\<rparr>) world0) 1
     = Some (OFile 0 ''f'' O_WRONLY_CREAT_TRUNC) \<and>
   fds (redirect_out_err kernel0 ((simple0 ''pwd'' [])\<lparr>out := Some ''f'', err := Some ''f''\<rparr>) world0) 2
     = Some (OFile 0 ''f'' O_WRONLY_CREAT_TRUNC) \<and>
   fds (redirect_out_err kernel0 ((simple0 ''pwd'' [])\<lparr>out := Some ''f'', err := Some ''f''\<rparr>) world0) 3
     = None \<and>
   trace (redirect_out_err kernel0 ((simple0 ''pwd'' [])\<lparr>out := Some ''f'', err := Some ''g''\<rparr>) world0)
     = [SysOpen (Some ''f'') O_WRONLY_CREAT_TRUNC 3, SysDup2 3 1 1,
        SysOpen (Some ''g'') O_WRONLY_CREAT_TRUNC 4, SysDup2 4 2 2, SysClose 3, SysClose 4] \<and>
   fds (redirect_out_err kernel0 ((simple0 ''pwd'' [])\<lparr>out := Some ''f'', err := Some ''g''\<rparr>) world0) 1
     = Some (OFile 0 ''f'' O_WRONLY_CREAT_TRUNC) \<and>
   fds (redirect_out_err kernel0 ((simple0 ''pwd'' [])\<lparr>out := Some ''f'', err := Some ''g''\<rparr>) world0) 2
     = Some (OFile 1 ''g'' O_WRONLY_CREAT_TRUNC)"
proof -
  let ?s = "(simple0 ''pwd'' [])\<lparr>out := Some ''f'', err := Some ''f''\<rparr>"
  let ?t = "(simple0 ''pwd'' [])\<lparr>out := Some ''f'', err := Some ''g''\<rparr>"
  have m: "write_mode ?s = O_WRONLY_CREAT_TRUNC" "write_mode ?t = O_WRONLY_CREAT_TRUNC"
    "next_ofile world0 = 0" "trace world0 = []"
    by (simp_all add: write_mode_def simple0_def world0_def)
  have hs: "out ?s = Some ''f'' \<and> err ?s = Some ''f''" by simp
  have ht: "out ?t = Some ''f'' \<and> err ?t = Some ''g'' \<and> ''f'' \<noteq> ''g''" by simp
  have tr_s: "trace (redirect_out_err kernel0 ?s world0)
     = [SysOpen (Some ''f'') O_WRONLY_CREAT_TRUNC 3, SysDup2 3 1 1, SysDup2 3 2 2, SysClose 3]"
    by code_simp
  have tr_t: "trace (redirect_out_err kernel0 ?t world0)
     = [SysOpen (Some ''f'') O_WRONLY_CREAT_TRUNC 3, SysDup2 3 1 1,
        SysOpen (Some ''g'') O_WRONLY_CREAT_TRUNC 4, SysDup2 4 2 2, SysClose 3, SysClose 4]"
    by code_simp
  from redirect_aliasing[of ?s "''f''" kernel0 world0 "''g''", THEN conjunct1, rule_format, OF hs]
  obtain fd r1 r2 where
    a: "trace (redirect_out_err kernel0 ?s world0) =
           trace world0 @ [SysOpen (Some ''f'') (write_mode ?s) fd, SysDup2 fd 1 r1, SysDup2 fd 2 r2]
                   @ (if fd = -1 then [] else [SysClose fd])"
    and b: "fd \<noteq> -1 \<and> fd \<noteq> 1 \<and> fd \<noteq> 2 \<longrightarrow>
            fds (redirect_out_err kernel0 ?s world0) 1 = Some (OFile (next_ofile world0) ''f'' (write_mode ?s)) \<and>
            fds (redirect_out_err kernel0 ?s world0) 2 = Some (OFile (next_ofile world0) ''f'' (write_mode ?s)) \<and>
            fds (redirect_out_err kernel0 ?s world0) fd = None"
    by blast
  from a[unfolded tr_s m] have fd: "fd = 3" by simp
  from b[unfolded fd m] have tab_s: "fds (redirect_out_err kernel0 ?s world0) 1 = Some (OFile 0 ''f'' O_WRONLY_CREAT_TRUNC) \<and>
            fds (redirect_out_err kernel0 ?s world0) 2 = Some (OFile 0 ''f'' O_WRONLY_CREAT_TRUNC) \<and>
            fds (redirect_out_err kernel0 ?s world0) 3 = None"
    by simp
  from redirect_aliasing[of ?t "''f''" kernel0 world0 "''g''", THEN conjunct2, rule_format, OF ht]
  obtain fd1 fd2 r1 r2 where
    c: "trace (redirect_out_err kernel0 ?t world0) =
           trace world0 @ [SysOpen (Some ''f'') (write_mode ?t) fd1, SysDup2 fd1 1 r1,
                      SysOpen (Some ''g'') (write_mode ?t) fd2, SysDup2 fd2 2 r2]
                   @ (if fd1 = -1 then [] else [SysClose fd1])
                   @ (if fd2 = -1 then [] else [SysClose fd2])"
    and d: "fd1 \<noteq> -1 \<and> fd1 \<noteq> 1 \<and> fd1 \<noteq> 2 \<and> fd2 \<noteq> -1 \<and> fd2 \<noteq> 2 \<longrightarrow>
            fds (redirect_out_err kernel0 ?t world0) 1 = Some (OFile (next_ofile world0) ''f'' (write_mode ?t)) \<and>
            fds (redirect_out_err kernel0 ?t world0) 2 = Some (OFile (Suc (next_ofile world0)) ''g'' (write_mode ?t))"
    by blast
  from c[unfolded tr_t m] have fd12: "fd1 = 3" "fd2 = 4"
    by simp_all
  from d[unfolded fd12 m] have tab_t: "fds (redirect_out_err kernel0 ?t world0) 1 = Some (OFile 0 ''f'' O_WRONLY_CREAT_TRUNC) \<and>
            fds (redirect_out_err kernel0 ?t world0) 2 = Some (OFile 1 ''g'' O_WRONLY_CREAT_TRUNC)"
    by simp
  from tr_s tab_s tr_t tab_t show ?thesis by blast
qed

lemma redirect_input_unopenable:
  assumes "inp s = Some p" and "\<forall>t. \<not> can_open K t p O_RDONLY"
  shows "fst (redirect_input K s w) = Exit 1"
  using assms by (simp add: redirect_input_def sys_open_def)

lemma file_operations_unopenable:
  assumes "inp s = Some p" and "\<forall>t. \<not> can_open K t p O_RDONLY"
  shows "fst (file_operations K s w) = Exit 1"
proof -
  obtain r w1 where ri: "redirect_input K s w = (r, w1)" by (cases "redirect_input K s w")
  with redirect_input_unopenable[OF assms, of w] have "r = Exit 1" by simp
  with ri show ?thesis by (simp add: file_operations_def)
qed

text \<open>
  Claim C5, as the code has it. When the input target cannot be opened, \<open>file_operations\<close>
  calls \<open>exit(1)\<close>: a leaf \<open>cd\<close> or \<open>pwd\<close>, which runs in the shell's own process, ends
  that process with status 1 instead of returning a failure status, and the child of an
  external command ends with status 1 in the same way.
\<close>

theorem input_redirection_failure_exits:
  assumes "inp s = Some p" and "\<forall>t. \<not> can_open K t p O_RDONLY"
  shows "fst (file_operations K s w) = Exit 1 \<and>
         (verb s = Some ''cd'' \<or> verb s = Some ''pwd'' \<longrightarrow>
            fst (parse_command K (Some (Command OP_NONE (Some s) c1 c2)) level father w) = Exit 1) \<and>
         fst (external_child K com s w) = Exited 1"
proof (intro conjI impI)
  show "fst (file_operations K s w) = Exit 1" by (rule file_operations_unopenable[OF assms])
next
  assume v: "verb s = Some ''cd'' \<or> verb s = Some ''pwd''"
  have cd: "fst (parse_simple_cd_case K com' s w) = Exit 1" for com'
  proof -
    obtain a w1 where d1: "sys_dupfd K 1 1 w = (a, w1)" by (cases "sys_dupfd K 1 1 w")
    obtain b w2 where d2: "sys_dupfd K 2 2 w1 = (b, w2)" by (cases "sys_dupfd K 2 2 w1")
    obtain r w3 where fo: "file_operations K s w2 = (r, w3)" by (cases "file_operations K s w2")
    with file_operations_unopenable[OF assms, of w2] have "r = Exit 1" by simp
    with d1 d2 fo show ?thesis by (simp add: parse_simple_cd_case_def)
  qed
  have pwd: "fst (parse_simple_pwd_case K com' s w) = Exit 1" for com'
  proof -
    obtain a w1 where d1: "sys_dupfd K 1 1 w = (a, w1)" by (cases "sys_dupfd K 1 1 w")
    obtain b w2 where d2: "sys_dupfd K 2 2 w1 = (b, w2)" by (cases "sys_dupfd K 2 2 w1")
    obtain r w3 where fo: "file_operations K s w2 = (r, w3)" by (cases "file_operations K s w2")
    with file_operations_unopenable[OF assms, of w2] have "r = Exit 1" by simp
    with d1 d2 fo show ?thesis by (simp add: parse_simple_pwd_case_def)
  qed
  from v cd pwd
  show "fst (parse_command K (Some (Command OP_NONE (Some s) c1 c2)) level father w) = Exit 1"
    by (auto simp: parse_simple_def get_word_def)
next
  obtain r w1 where fo: "file_operations K s w = (r, w1)" by (cases "file_operations K s w")
  with file_operations_unopenable[OF assms, of w] have "r = Exit 1" by simp
  with fo show "fst (external_child K com s w) = Exited 1" by (simp add: external_child_def)
qed

text \<open>
  The theorem at \<open>pwd < missing\<close>.
\<close>

theorem input_redirection_failure_exits_witness:
  "fst (file_operations kernel0 ((simple0 ''pwd'' [])\<lparr>inp := Some ''missing''\<rparr>) world0) = Exit 1 \<and>
   fst (parse_command kernel0 (leaf ((simple0 ''pwd'' [])\<lparr>inp := Some ''missing''\<rparr>)) 0 None world0)
     = Exit 1 \<and>
   fst (external_child kernel0 ''pwd'' ((simple0 ''pwd'' [])\<lparr>inp := Some ''missing''\<rparr>) world0)
     = Exited 1"
proof -
  let ?s = "(simple0 ''pwd'' [])\<lparr>inp := Some ''missing''\<rparr>"
  have h1: "inp ?s = Some ''missing''" by simp
  have h2: "\<forall>t. \<not> can_open kernel0 t ''missing'' O_RDONLY" by (simp add: kernel0_def)
  have h3: "verb ?s = Some ''cd'' \<or> verb ?s = Some ''pwd''" by (simp add: simple0_def)
  from input_redirection_failure_exits[OF h1 h2, of world0 None None 0 None "''pwd''"] h3
  show ?thesis by (auto simp: leaf_def)
qed

text \<open>
  Claim C5 as stated fails at \<open>cd /usr < missing\<close>: the evaluation does not return a
  status, the shell process exits with status 1.
\<close>

theorem builtin_input_failure_exits_shell:
  "fst (parse_command kernel0 (leaf ((simple0 ''cd'' [''/usr''])\<lparr>inp := Some ''missing''\<rparr>))
          0 None world0) = Exit 1"
  by code_simp

section \<open>Sequential and parallel composition\<close>

lemma sequential_runs_both_returns_zero:
  assumes "parse_command K A level (Some (Command OP_SEQUENTIAL s A B)) w = (Ret a, w1)"
    and "parse_command K B level (Some (Command OP_SEQUENTIAL s A B)) w1 = (Ret b, w2)"
  shows "parse_command K (Some (Command OP_SEQUENTIAL s A B)) level father w = (Ret 0, w2)"
  using assms by simp

text \<open>
  Claim C1, evaluated at \<open>pwd ; exit\<close>: the right child returns \<open>SHELL_EXIT\<close> in the state
  the left child left, and the node returns 0.
\<close>

theorem sequential_returns_zero_example:
  "fst (parse_command kernel0
          (node OP_SEQUENTIAL (leaf (simple0 ''pwd'' [])) (leaf (simple0 ''exit'' []))) 0 None world0)
     = Ret 0 \<and>
   fst (parse_command kernel0 (leaf (simple0 ''exit'' [])) 0
          (node OP_SEQUENTIAL (leaf (simple0 ''pwd'' [])) (leaf (simple0 ''exit'' [])))
          (snd (parse_command kernel0 (leaf (simple0 ''pwd'' [])) 0
                  (node OP_SEQUENTIAL (leaf (simple0 ''pwd'' [])) (leaf (simple0 ''exit'' [])))
                  world0)))
     = Ret (SHELL_EXIT kernel0) \<and> SHELL_EXIT kernel0 \<noteq> 0"
  by code_simp

lemma parallel_status_is_dropped:
  assumes "fst (parse_command K (Some (Command OP_PARALLEL s A B)) level father w) = Ret r"
  shows "r = 0"
proof -
  obtain res w1 where rp: "run_in_parallel K A B level (Some (Command OP_PARALLEL s A B)) w = (res, w1)"
    by (cases "run_in_parallel K A B level (Some (Command OP_PARALLEL s A B)) w")
  with assms show ?thesis by (cases res) simp_all
qed

text \<open>
  Claim C3, evaluated at \<open>false & false\<close>: both children are waited for, both exited with
  status 1, and the node returns 0.
\<close>

theorem parallel_returns_zero_example:
  "fst (parse_command kernel0
          (node OP_PARALLEL (leaf (simple0 ''false'' [])) (leaf (simple0 ''false'' []))) 0 None world0)
     = Ret 0 \<and>
   trace (snd (parse_command kernel0
          (node OP_PARALLEL (leaf (simple0 ''false'' [])) (leaf (simple0 ''false'' []))) 0 None world0))
     = [SysFork 1, SysFork 2, SysWait 1 (Some (wstatus (Exited 1))), SysWait 2 (Some (wstatus (Exited 1)))]"
  by code_simp

lemma parallel_second_fork_fails_no_wait:
  assumes ok1: "fork_ok K (clock w)"
    and f1: "fork_child K (parallel_child K c1 level father) w = (pid1, w1)"
    and ko2: "\<not> fork_ok K (clock w1)"
  shows "run_in_parallel K c1 c2 level father w = (Ret False, log (SysFork (-1)) w1)"
    and "trace (log (SysFork (-1)) w1) = trace w @ [SysFork pid1, SysFork (-1)]"
    and "children (log (SysFork (-1)) w1)
           = children w @ [(pid1, fst (parallel_child K c1 level father (child_world (forked w))))]"
proof -
  note F = fork_child_ok[OF ok1 f1] fork_child_trace[OF ok1 f1]
  from F(1) have "pid1 \<noteq> -1" by simp
  then show "run_in_parallel K c1 c2 level father w = (Ret False, log (SysFork (-1)) w1)"
    using f1 ko2 by (simp add: parallel_child_def fork_child_def[of K _ w1])
  show "trace (log (SysFork (-1)) w1) = trace w @ [SysFork pid1, SysFork (-1)]"
    using F(5) by (simp add: log_def)
  show "children (log (SysFork (-1)) w1)
           = children w @ [(pid1, fst (parallel_child K c1 level father (child_world (forked w))))]"
    using F(4) by (simp add: log_def)
qed

text \<open>
  Claim C6, evaluated at a parallel node when only the first \<open>fork\<close> succeeds:
  \<open>run_in_parallel\<close> returns after the failed second \<open>fork\<close> without any \<open>waitpid\<close>, and
  the first child stays in the list of children not waited for.
\<close>

theorem parallel_second_fork_failure_example:
  "fst (run_in_parallel (kernel0\<lparr>fork_ok := (\<lambda>t. t = 0)\<rparr>)
          (leaf (simple0 ''pwd'' [])) (leaf (simple0 ''pwd'' [])) 0 None world0) = Ret False \<and>
   trace (snd (run_in_parallel (kernel0\<lparr>fork_ok := (\<lambda>t. t = 0)\<rparr>)
          (leaf (simple0 ''pwd'' [])) (leaf (simple0 ''pwd'' [])) 0 None world0))
     = [SysFork 1, SysFork (-1)] \<and>
   children (snd (run_in_parallel (kernel0\<lparr>fork_ok := (\<lambda>t. t = 0)\<rparr>)
          (leaf (simple0 ''pwd'' [])) (leaf (simple0 ''pwd'' [])) 0 None world0))
     = [(1, Exited 0)]"
  by code_simp

section \<open>Pipes\<close>

lemma run_on_pipe_steps:
  assumes "sys_pipe K w = (Some (rd, wr), w0)"
    and "fork_child K (pipe_producer K c1 level father rd wr) w0 = (pid1, w1)"
    and "fork_child K (pipe_consumer K c2 level father rd wr) w1 = (pid2, w2)"
  shows "run_on_pipe K c1 c2 level father w =
           pipe_wait K pid1 pid2 (sys_close wr (sys_close rd w2))"
  using assms by (simp add: pipe_producer_def pipe_consumer_def pipe_wait_def)

text \<open>
  Claim C2, as the code has it. Take a pipe node in a process whose recorded children all
  have identifiers it has already handed out. When the pipe is created, both children are
  forked, the right child's evaluation of \<open>B\<close> returns a status \<open>r\<close> (it does not end the
  child by \<open>exit\<close>, by a fault or by blocking), and both waits deliver a status, the node
  returns 0 if \<open>r = 0\<close> and 1 if \<open>r \<noteq> 0\<close>. The status of the left child does not enter
  the result. Nothing is said of a right child whose evaluation of \<open>B\<close> does not return.
\<close>

theorem pipe_returns_consumer_status:
  assumes wf: "list_all (\<lambda>(p, e). p \<le> int (next_pid w)) (children w)"
    and pipe: "sys_pipe K w = (Some (rd, wr), w0)"
    and ok1: "fork_ok K (clock w0)"
    and f1: "fork_child K (pipe_producer K A level (Some (Command OP_PIPE s A B)) rd wr) w0 = (pid1, w1)"
    and ok2: "fork_ok K (clock w1)"
    and f2: "fork_child K (pipe_consumer K B level (Some (Command OP_PIPE s A B)) rd wr) w1 = (pid2, w2)"
    and right: "parse_command K B level (Some (Command OP_PIPE s A B))
                   (snd (sys_dup2 rd 0 (sys_close wr (child_world (forked w1))))) = (Ret r, cw)"
    and wait1: "sys_waitpid K pid1 (sys_close wr (sys_close rd w2)) = (WaitStatus st1, w3)"
    and wait2: "sys_waitpid K pid2 w3 = (WaitStatus st2, w4)"
  shows "parse_command K (Some (Command OP_PIPE s A B)) level father w
           = (Ret (if r = 0 then 0 else 1), w4)"
proof -
  let ?N = "Some (Command OP_PIPE s A B)"
  note P = sys_pipe_Some[OF pipe]
  note F1 = fork_child_ok[OF ok1 f1]
  note F2 = fork_child_ok[OF ok2 f2]
  have pid1: "pid1 = 1 + int (next_pid w)" using F1(1) P(7) by simp
  have pid2: "pid2 = 2 + int (next_pid w)" using F2(1) F1(2) P(7) by simp
  have rd_open: "fds (sys_close wr (child_world (forked w1))) rd \<noteq> None"
    using P(3,4) F1(3) by (simp add: fds_sys_close fds_child_world)
  then obtain f where "fds (sys_close wr (child_world (forked w1))) rd = Some f" by auto
  then have dup: "fst (sys_dup2 rd 0 (sys_close wr (child_world (forked w1)))) = 0"
    using P(1) by (simp add: sys_dup2_def)
  have e2: "fst (pipe_consumer K B level ?N rd wr (child_world (forked w1)))
              = Exited (if r = 0 then 1 else 0)"
    using dup right by (simp add: pipe_consumer_def split_beta)
  have ch2: "children w2 = children w @ [(pid1, fst (pipe_producer K A level ?N rd wr (child_world (forked w0)))),
                                        (pid2, Exited (if r = 0 then 1 else 0))]"
    using F2(4) F1(4) P(6) e2 by simp
  have ch3: "children w3 = children w @ [(pid2, Exited (if r = 0 then 1 else 0))]"
    using sys_waitpid_status(2)[OF wait1] wf pid1 pid2
    by (simp add: children_sys_close ch2 stale_filter)
  from sys_waitpid_status(1)[OF wait2] wf pid2
  have st2: "st2 = wstatus (Exited (if r = 0 then 1 else 0))"
    by (auto simp: ch3 stale_filter)
  have "run_on_pipe K A B level ?N w = (Ret (r \<noteq> 0), w4)"
    unfolding run_on_pipe_steps[OF pipe f1 f2] pipe_wait_def
    using wait1 wait2
    by (simp add: st2 WIFSTOPPED_def WSTOPSIG_def)
  then show ?thesis by simp
qed

text \<open>
  The theorem at \<open>false | true\<close>.
\<close>

theorem pipe_returns_consumer_status_witness:
  "fst (sys_pipe kernel0 world0) = Some (3, 4) \<and>
   fst (parse_command kernel0 (leaf (simple0 ''true'' [])) 0
          (node OP_PIPE (leaf (simple0 ''false'' [])) (leaf (simple0 ''true'' [])))
          (snd (sys_dup2 3 0 (sys_close 4 (child_world (forked
             (snd (fork_child kernel0
                    (pipe_producer kernel0 (leaf (simple0 ''false'' [])) 0
                       (node OP_PIPE (leaf (simple0 ''false'' [])) (leaf (simple0 ''true'' []))) 3 4)
                    (snd (sys_pipe kernel0 world0)))))))))) = Ret 0 \<and>
   fst (parse_command kernel0
          (node OP_PIPE (leaf (simple0 ''false'' [])) (leaf (simple0 ''true'' []))) 0 None world0)
     = Ret 0"
proof -
  let ?A = "leaf (simple0 ''false'' [])"
  let ?B = "leaf (simple0 ''true'' [])"
  let ?N = "Some (Command OP_PIPE None ?A ?B)"
  let ?w0 = "snd (sys_pipe kernel0 world0)"
  let ?f1 = "fork_child kernel0 (pipe_producer kernel0 ?A 0 ?N 3 4) ?w0"
  let ?w1 = "snd ?f1"
  let ?f2 = "fork_child kernel0 (pipe_consumer kernel0 ?B 0 ?N 3 4) ?w1"
  let ?w2 = "snd ?f2"
  let ?cw = "snd (sys_dup2 3 0 (sys_close 4 (child_world (forked ?w1))))"
  let ?wa = "sys_waitpid kernel0 1 (sys_close 4 (sys_close 3 ?w2))"
  let ?wb = "sys_waitpid kernel0 2 (snd ?wa)"
  have wf: "list_all (\<lambda>(p, e). p \<le> int (next_pid world0)) (children world0)"
    by (simp add: world0_def)
  have "fst (sys_pipe kernel0 world0) = Some (3, 4)" by code_simp
  then have pipe: "sys_pipe kernel0 world0 = (Some (3, 4), ?w0)" by (simp add: prod_eq_iff)
  have ok: "fork_ok kernel0 (clock ?w0)" "fork_ok kernel0 (clock ?w1)"
    by (simp_all add: kernel0_def)
  have "fst ?f1 = 1" by code_simp
  then have f1: "?f1 = (1, ?w1)" by (simp add: prod_eq_iff)
  have "fst ?f2 = 2" by code_simp
  then have f2: "?f2 = (2, ?w2)" by (simp add: prod_eq_iff)
  have rv: "fst (parse_command kernel0 ?B 0 ?N ?cw) = Ret 0" by code_simp
  then have right: "parse_command kernel0 ?B 0 ?N ?cw = (Ret 0, snd (parse_command kernel0 ?B 0 ?N ?cw))"
    by (simp add: prod_eq_iff)
  have "fst ?wa = WaitStatus 0" by code_simp
  then have wait1: "?wa = (WaitStatus 0, snd ?wa)" by (simp add: prod_eq_iff)
  have "fst ?wb = WaitStatus 256" by code_simp
  then have wait2: "?wb = (WaitStatus 256, snd ?wb)" by (simp add: prod_eq_iff)
  from pipe_returns_consumer_status[OF wf pipe ok(1) f1 ok(2) f2 right wait1 wait2, of None]
  have "fst (parse_command kernel0 ?N 0 None world0) = Ret 0" by simp
  with \<open>fst (sys_pipe kernel0 world0) = Some (3, 4)\<close> rv show ?thesis
    by (simp add: node_def)
qed

text \<open>
  Claim C2 as stated fails at \<open>false | true\<close>: the left side fails with status 1 and the
  node returns 0.
\<close>

theorem pipe_ignores_producer_failure:
  "fst (parse_command kernel0 (leaf (simple0 ''false'' [])) 0 None world0) = Ret 1 \<and>
   fst (parse_command kernel0
          (node OP_PIPE (leaf (simple0 ''false'' [])) (leaf (simple0 ''true'' []))) 0 None world0)
     = Ret 0"
  by code_simp

end
